theory Spec2Isabelle
  imports Complex_Main "HOL-Library.Sublist"
begin

section \<open>Go strings\<close>

text \<open>
  A Go string is a sequence of bytes; it is modelled as \<^typ>\<open>string\<close>, one
  \<^typ>\<open>char\<close> per byte, so a character outside ASCII is the bytes of its UTF-8
  encoding. The functions of package \<open>strings\<close> that the library calls are written
  out on the bytes.
\<close>

definition HasPrefix :: "string \<Rightarrow> string \<Rightarrow> bool" where
  "HasPrefix s p = prefix p s"

definition Contains :: "string \<Rightarrow> string \<Rightarrow> bool" where
  "Contains s substr = sublist substr s"

text \<open>
  \<open>strings.TrimLeft(s, cutset)\<close> removes every leading character that occurs in
  \<open>cutset\<close>; it is not the removal of a prefix. The only cutset of the source is the
  ASCII string \<open>"id"\<close>, for which characters and bytes coincide.
\<close>

definition TrimLeft :: "string \<Rightarrow> string \<Rightarrow> string" where
  "TrimLeft s cutset = dropWhile (\<lambda>c. c \<in> set cutset) s"

text \<open>
  \<open>strings.TrimSpace\<close> removes leading and trailing white space as Unicode defines it
  (\<open>unicode.IsSpace\<close>): the six ASCII characters tab, line feed, vertical tab, form
  feed, carriage return and space, and U+0085, U+00A0, U+1680, U+2000 to U+200A, U+2028,
  U+2029, U+202F, U+205F and U+3000. \<open>spaceRunes\<close> lists their UTF-8 encodings.
\<close>

definition spaceRunes :: "string list" where
  "spaceRunes =
     [[CHR 0x09], [CHR 0x0A], [CHR 0x0B], [CHR 0x0C], [CHR 0x0D], [CHR 0x20],
      [CHR 0xC2, CHR 0x85], [CHR 0xC2, CHR 0xA0],
      [CHR 0xE1, CHR 0x9A, CHR 0x80],
      [CHR 0xE2, CHR 0x80, CHR 0x80], [CHR 0xE2, CHR 0x80, CHR 0x81],
      [CHR 0xE2, CHR 0x80, CHR 0x82], [CHR 0xE2, CHR 0x80, CHR 0x83],
      [CHR 0xE2, CHR 0x80, CHR 0x84], [CHR 0xE2, CHR 0x80, CHR 0x85],
      [CHR 0xE2, CHR 0x80, CHR 0x86], [CHR 0xE2, CHR 0x80, CHR 0x87],
      [CHR 0xE2, CHR 0x80, CHR 0x88], [CHR 0xE2, CHR 0x80, CHR 0x89],
      [CHR 0xE2, CHR 0x80, CHR 0x8A],
      [CHR 0xE2, CHR 0x80, CHR 0xA8], [CHR 0xE2, CHR 0x80, CHR 0xA9],
      [CHR 0xE2, CHR 0x80, CHR 0xAF],
      [CHR 0xE2, CHR 0x81, CHR 0x9F],
      [CHR 0xE3, CHR 0x80, CHR 0x80]]"

text \<open>A continuation byte of UTF-8: \<open>10xxxxxx\<close>.\<close>

definition isCont :: "char \<Rightarrow> bool" where
  "isCont c = (128 \<le> (of_char c :: nat) \<and> (of_char c :: nat) < 192)"

definition leadingSpace :: "string \<Rightarrow> string option" where
  "leadingSpace s = find (\<lambda>p. prefix p s) spaceRunes"

definition trailingSpace :: "string \<Rightarrow> string option" where
  "trailingSpace s = find (\<lambda>p. suffix p s) spaceRunes"

function TrimLeftSpace :: "string \<Rightarrow> string" where
  "TrimLeftSpace s =
     (case leadingSpace s of
        None \<Rightarrow> s
      | Some p \<Rightarrow> TrimLeftSpace (drop (length p) s))"
  by pat_completeness auto
termination
proof (relation "measure length")
  show "wf (measure length)" by simp
next
  fix s p assume "leadingSpace s = Some p"
  then have "p \<in> set spaceRunes" "prefix p s"
    by (auto simp: leadingSpace_def find_Some_iff)
  then have "p \<noteq> []" "length p \<le> length s"
    by (auto simp: spaceRunes_def prefix_length_le)
  then show "(drop (length p) s, s) \<in> measure length"
    by (cases p) auto
qed

function TrimRightSpace :: "string \<Rightarrow> string" where
  "TrimRightSpace s =
     (case trailingSpace s of
        None \<Rightarrow> s
      | Some p \<Rightarrow> TrimRightSpace (take (length s - length p) s))"
  by pat_completeness auto
termination
proof (relation "measure length")
  show "wf (measure length)" by simp
next
  fix s p assume "trailingSpace s = Some p"
  then have "p \<in> set spaceRunes" "suffix p s"
    by (auto simp: trailingSpace_def find_Some_iff)
  then have "p \<noteq> []" "length p \<le> length s"
    by (auto simp: spaceRunes_def suffix_length_le)
  then show "(take (length s - length p) s, s) \<in> measure length"
    by (cases p) auto
qed

declare TrimLeftSpace.simps [simp del] TrimRightSpace.simps [simp del]

definition TrimSpace :: "string \<Rightarrow> string" where
  "TrimSpace s = TrimRightSpace (TrimLeftSpace s)"

text \<open>
  \<open>strings.ToLower\<close> maps every character to its Unicode lower case. The case table
  is part of the Go library, so the functions below take the mapping as a parameter
  \<open>lower\<close>, and every theorem about them holds for whatever mapping is supplied.
  On a string of ASCII characters \<open>strings.ToLower\<close> is \<open>asciiToLower\<close>, which
  the concrete examples use.
\<close>

definition asciiToLowerByte :: "char \<Rightarrow> char" where
  "asciiToLowerByte c =
     (case map_of (zip ''ABCDEFGHIJKLMNOPQRSTUVWXYZ'' ''abcdefghijklmnopqrstuvwxyz'') c of
        None \<Rightarrow> c
      | Some l \<Rightarrow> l)"

definition asciiToLower :: "string \<Rightarrow> string" where
  "asciiToLower s = map asciiToLowerByte s"

text \<open>The verb \<open>%d\<close> of package \<open>fmt\<close>: an integer in decimal.\<close>

function showNat :: "nat \<Rightarrow> string" where
  "showNat n =
     (if n < 10 then [''0123456789'' ! n]
      else showNat (n div 10) @ [''0123456789'' ! (n mod 10)])"
  by pat_completeness auto
termination
  by (relation "measure id") auto

declare showNat.simps [simp del]

definition showInt :: "int \<Rightarrow> string" where
  "showInt i = (if i < 0 then ''-'' @ showNat (nat (- i)) else showNat (nat i))"

section \<open>Errors\<close>

text \<open>
  The library builds every error with \<open>fmt.Errorf\<close>; an error that wraps another
  (verb \<open>%w\<close>) keeps it. Each constructor is one format string of the source;
  \<open>LibraryError\<close> is an error returned by a call into the Go library (the embedded
  file system, the JSON decoder, the HTTP client). \<open>errorText\<close> is the method
  \<open>Error()\<close>.
\<close>

datatype error =
    LibraryError string
  | ErrorReadingMunicipalities error
  | ErrorParsingMunicipalities error
  | MunicipalityNotFound string
  | MunicipalityIDNotFound string
  | ErrorRequestingData error
  | ErrorDecodingData error
  | RequestFailedAfter int "error option"
  | NoDataFound string
  | NoForecastData

fun errorText :: "error \<Rightarrow> string" where
  "errorText (LibraryError msg) = msg"
| "errorText (ErrorReadingMunicipalities e) = ''error reading municipalities data: '' @ errorText e"
| "errorText (ErrorParsingMunicipalities e) = ''error parsing municipalities data: '' @ errorText e"
| "errorText (MunicipalityNotFound name) = ''municipality not found: '' @ name"
| "errorText (MunicipalityIDNotFound ident) = ''municipality ID not found: '' @ ident"
| "errorText (ErrorRequestingData e) = ''error requesting data: '' @ errorText e"
| "errorText (ErrorDecodingData e) = ''error decoding data: '' @ errorText e"
| "errorText (RequestFailedAfter n None) =
     ''request failed after '' @ showInt n @ '' attempts: %!w(<nil>)''"
| "errorText (RequestFailedAfter n (Some e)) =
     ''request failed after '' @ showInt n @ '' attempts: '' @ errorText e"
| "errorText (NoDataFound muni) = ''no data found for municipality '' @ muni"
| "errorText NoForecastData = ''no forecast data available''"

section \<open>The forecast types (package aemet)\<close>

text \<open>
  The structs that a forecast response is decoded into. A Go \<open>int\<close> is a 64-bit
  integer; the source only compares and prints these values, so they are \<^typ>\<open>int\<close>.
  \<open>Version\<close> is a \<open>float64\<close> that nothing reads.
\<close>

record ProbPrecipitacion =
  Value :: int
  Periodo :: string

record CotaNieveProv =
  Value :: string
  Periodo :: string

record EstadoCielo =
  Value :: string
  Periodo :: string
  Descripcion :: string

record Viento =
  Direccion :: string
  Velocidad :: int
  Periodo :: string

record RachaMax =
  Value :: string
  Periodo :: string

record Dato =
  Value :: int
  Hora :: int

record Temperatura =
  Maxima :: int
  Minima :: int
  Dato :: "Dato list"

record Dia =
  ProbPrecipitacion :: "ProbPrecipitacion list"
  CotaNieveProv :: "CotaNieveProv list"
  EstadoCielo :: "EstadoCielo list"
  Viento :: "Viento list"
  RachaMax :: "RachaMax list"
  Temperatura :: Temperatura
  SensTermica :: Temperatura
  HumedadRelativa :: Temperatura
  UvMax :: int
  Fecha :: string

record Prediccion =
  Dia :: "Dia list"

record Municipality =
  Elaborado :: string
  Nombre :: string
  Provincia :: string
  Prediccion :: Prediccion
  ID :: int
  Version :: real

section \<open>The municipality directory (package aemet, municipalities.go)\<close>

record MunicipalityInfo =
  Latitude :: string
  IDOld :: string
  URL :: string
  LatitudeDec :: string
  Altitude :: string
  Capital :: string
  NumHab :: string
  ZonaComarcal :: string
  Destacada :: string
  Name :: string
  LongitudeDec :: string
  ID :: string
  Longitude :: string

text \<open>
  The embedded file system and the JSON decoder are outside the repository:
  \<open>ReadFile\<close> is \<open>municipalitiesFS.ReadFile\<close> (the error text or the bytes of the
  file) and \<open>Unmarshal\<close> is \<open>json.Unmarshal\<close> into a slice of
  \<open>MunicipalityInfo\<close> (the error text or the decoded records, in file order).
  The slice holds pointers to the records. The dataset is an array of objects, so no
  pointer is \<open>nil\<close>; an array with a \<open>null\<close> element, on which the loop of the
  load would panic, is not modelled.
\<close>

record embedded =
  ReadFile :: "string \<Rightarrow> string + string"
  Unmarshal :: "string \<Rightarrow> string + MunicipalityInfo list"

text \<open>
  The package variables \<open>municipalities\<close> and \<open>initialized\<close>. The fields
  \<open>reads\<close> and \<open>parses\<close> are not in the source: they count the calls of
  \<open>ReadFile\<close> and of \<open>json.Unmarshal\<close>, so that a theorem can say that the
  dataset is not read again. When decoding fails the source leaves whatever the decoder
  has stored so far in \<open>municipalities\<close>; no operation reads it before a later
  successful load overwrites it, and the model leaves the variable as it was.
\<close>

record directory =
  municipalities :: "MunicipalityInfo list"
  initialized :: bool
  reads :: nat
  parses :: nat

definition emptyDirectory :: directory where
  "emptyDirectory = \<lparr>municipalities = [], initialized = False, reads = 0, parses = 0\<rparr>"

definition initializeMunicipalities :: "embedded \<Rightarrow> directory \<Rightarrow> error option \<times> directory" where
  "initializeMunicipalities fs g =
     (if initialized g then (None, g)
      else
        (case ReadFile fs ''data/municipalities.json'' of
           Inl err \<Rightarrow> (Some (ErrorReadingMunicipalities (LibraryError err)), g\<lparr>reads := reads g + 1\<rparr>)
         | Inr data \<Rightarrow>
             (case Unmarshal fs data of
                Inl err \<Rightarrow>
                  (Some (ErrorParsingMunicipalities (LibraryError err)),
                   g\<lparr>reads := reads g + 1, parses := parses g + 1\<rparr>)
              | Inr ms \<Rightarrow>
                  (None,
                   g\<lparr>municipalities := map (\<lambda>m. m\<lparr>ID := TrimLeft (ID m) ''id''\<rparr>) ms,
                     initialized := True,
                     reads := reads g + 1, parses := parses g + 1\<rparr>))))"

text \<open>The loop of \<open>FindMunicipalityID\<close>: it returns at the first record whose name matches.\<close>

fun findIDLoop :: "(string \<Rightarrow> string) \<Rightarrow> string \<Rightarrow> MunicipalityInfo list \<Rightarrow> string option" where
  "findIDLoop lower normalizedName [] = None"
| "findIDLoop lower normalizedName (muni # rest) =
     (if lower (Name muni) = normalizedName
      then (if HasPrefix (ID muni) ''id'' then Some (drop 2 (ID muni)) else Some (ID muni))
      else findIDLoop lower normalizedName rest)"

definition FindMunicipalityID ::
  "(string \<Rightarrow> string) \<Rightarrow> embedded \<Rightarrow> string \<Rightarrow> directory \<Rightarrow> (error + string) \<times> directory" where
  "FindMunicipalityID lower fs name g =
     (case initializeMunicipalities fs g of
        (Some err, g') \<Rightarrow> (Inl err, g')
      | (None, g') \<Rightarrow>
          (case findIDLoop lower (lower (TrimSpace name)) (municipalities g') of
             Some ident \<Rightarrow> (Inr ident, g')
           | None \<Rightarrow> (Inl (MunicipalityNotFound name), g')))"

text \<open>The loop of \<open>FindMunicipalitiesByPartialName\<close>, with the slice \<open>results\<close> it appends to.\<close>

fun partialNameLoop ::
  "(string \<Rightarrow> string) \<Rightarrow> string \<Rightarrow> MunicipalityInfo list \<Rightarrow> MunicipalityInfo list \<Rightarrow> MunicipalityInfo list" where
  "partialNameLoop lower normalizedPartial [] results = results"
| "partialNameLoop lower normalizedPartial (muni # rest) results =
     partialNameLoop lower normalizedPartial rest
       (if Contains (lower (Name muni)) normalizedPartial then results @ [muni] else results)"

definition FindMunicipalitiesByPartialName ::
  "(string \<Rightarrow> string) \<Rightarrow> embedded \<Rightarrow> string \<Rightarrow> directory \<Rightarrow> (error + MunicipalityInfo list) \<times> directory" where
  "FindMunicipalitiesByPartialName lower fs partialName g =
     (case initializeMunicipalities fs g of
        (Some err, g') \<Rightarrow> (Inl err, g')
      | (None, g') \<Rightarrow>
          (Inr (partialNameLoop lower (lower (TrimSpace partialName)) (municipalities g') []), g'))"


text \<open>The loop of \<open>GetMunicipalityByID\<close>.\<close>

fun byIDLoop :: "string \<Rightarrow> MunicipalityInfo list \<Rightarrow> MunicipalityInfo option" where
  "byIDLoop searchID [] = None"
| "byIDLoop searchID (muni # rest) =
     (if ID muni = searchID then Some muni else byIDLoop searchID rest)"

definition GetMunicipalityByID ::
  "embedded \<Rightarrow> string \<Rightarrow> directory \<Rightarrow> (error + MunicipalityInfo) \<times> directory" where
  "GetMunicipalityByID fs ident g =
     (case initializeMunicipalities fs g of
        (Some err, g') \<Rightarrow> (Inl err, g')
      | (None, g') \<Rightarrow>
          (let searchID = (if \<not> HasPrefix ident ''id'' then ''id'' @ ident else ident) in
           case byIDLoop searchID (municipalities g') of
             Some muni \<Rightarrow> (Inr muni, g')
           | None \<Rightarrow> (Inl (MunicipalityIDNotFound ident), g')))"

section \<open>The client (package aemet)\<close>

definition aemetApi :: string where
  "aemetApi = ''https://opendata.aemet.es/opendata''"

definition maxRetries :: int where
  "maxRetries = 3"

definition baseBackoffMs :: int where
  "baseBackoffMs = 100"

text \<open>
  The network is a state of an arbitrary type \<open>'w\<close>. \<open>httpClientGet\<close> is
  \<open>c.httpClient.Get\<close>: given the URL it returns the text of the error or the body of
  the response, and the next state of the network. The source never looks at the
  status code of a response. What a call does besides returning is a list of events, in the order
  they happen: the calls of \<open>Get\<close> with their URL, the sleeps with their length in
  milliseconds, and the lines written to \<open>c.logger\<close>.
\<close>

record 'w Client =
  AemetApiKey :: string
  httpClientGet :: "string \<Rightarrow> 'w \<Rightarrow> (string + string) \<times> 'w"

datatype event = HttpGet string | Sleep int | Logged string

text \<open>
  The first body is decoded into a \<open>map[string]any\<close>. A value of type \<open>any\<close> is
  \<open>nil\<close>, a string, or something else (a number, a boolean, an array, an object); the
  source only formats it with the verb \<open>%s\<close>, so a value of the last kind carries
  the text that \<open>%s\<close> prints for it. Looking up a key that the map does not hold
  gives \<open>nil\<close>, which \<open>%s\<close> prints as \<open>%!s(<nil>)\<close>.
\<close>

datatype any = AnyNil | AnyString string | AnyOther string

fun formatS :: "any \<Rightarrow> string" where
  "formatS AnyNil = ''%!s(<nil>)''"
| "formatS (AnyString s) = s"
| "formatS (AnyOther printed) = printed"

definition index :: "(string \<rightharpoonup> any) \<Rightarrow> string \<Rightarrow> any" where
  "index data k = (case data k of None \<Rightarrow> AnyNil | Some v \<Rightarrow> v)"

text \<open>
  \<open>getRedir\<close>. The JSON decoder is outside the repository: \<open>decodeObject\<close> decodes a
  body into a \<open>map[string]any\<close> and \<open>decodeTarget\<close> decodes a body into the
  caller's target \<open>t\<close>; each returns the text of the error or the decoded value.
\<close>

definition getRedir ::
  "(string \<Rightarrow> string + (string \<rightharpoonup> any)) \<Rightarrow> 'w Client \<Rightarrow> string \<Rightarrow> (string \<Rightarrow> string + 't) \<Rightarrow> 'w
     \<Rightarrow> (error + 't) \<times> 'w \<times> event list" where
  "getRedir decodeObject c path decodeTarget w =
     (let url1 = aemetApi @ ''/'' @ path @ ''?api_key='' @ AemetApiKey c in
      case httpClientGet c url1 w of
        (Inl err, w1) \<Rightarrow> (Inl (ErrorRequestingData (LibraryError err)), w1, [HttpGet url1])
      | (Inr body1, w1) \<Rightarrow>
          (case decodeObject body1 of
             Inl err \<Rightarrow> (Inl (ErrorDecodingData (LibraryError err)), w1, [HttpGet url1])
           | Inr data \<Rightarrow>
               (let url2 = formatS (index data ''datos'') @ ''?api_key='' @ AemetApiKey c in
                case httpClientGet c url2 w1 of
                  (Inl err, w2) \<Rightarrow>
                    (Inl (ErrorRequestingData (LibraryError err)), w2, [HttpGet url1, HttpGet url2])
                | (Inr body2, w2) \<Rightarrow>
                    (case decodeTarget body2 of
                       Inl err \<Rightarrow>
                         (Inl (ErrorDecodingData (LibraryError err)), w2, [HttpGet url1, HttpGet url2])
                     | Inr t \<Rightarrow> (Inr t, w2, [HttpGet url1, HttpGet url2])))))"

text \<open>
  The two lines that \<open>getRedirWithRetry\<close> logs, and its backoff. The source computes
  \<open>baseBackoffMs * int(math.Pow(2, float64(attempt-1)))\<close>; the exponent is at most
  \<open>maxRetries - 1 = 2\<close>, where the floating-point power is the exact integer.
\<close>

definition retryingMessage :: "int \<Rightarrow> int \<Rightarrow> string" where
  "retryingMessage attempt backoffMs =
     ''Retrying request (attempt '' @ showInt (attempt + 1) @ ''/'' @ showInt (maxRetries + 1)
       @ '') after '' @ showInt backoffMs @ ''ms backoff''"

definition failedMessage :: "int \<Rightarrow> error \<Rightarrow> string" where
  "failedMessage attempt err =
     ''Request failed (attempt '' @ showInt (attempt + 1) @ ''/'' @ showInt (maxRetries + 1)
       @ ''): '' @ errorText err"

definition backoff :: "int \<Rightarrow> int" where
  "backoff attempt = baseBackoffMs * 2 ^ nat (attempt - 1)"

text \<open>
  The loop of \<open>getRedirWithRetry\<close>, from the value \<open>attempt\<close> of its counter and the
  value \<open>lastErr\<close> of its variable; the statement after the loop is the last branch.
  Every attempt decodes into the same target \<open>t\<close>. The value returned is that of the
  attempt that succeeds, as \<open>decodeTarget\<close> gives it for the body of that attempt;
  what a failed decoding has stored in the target before is not modelled.
\<close>

function retryLoop ::
  "(string \<Rightarrow> string + (string \<rightharpoonup> any)) \<Rightarrow> 'w Client \<Rightarrow> string \<Rightarrow> (string \<Rightarrow> string + 't)
     \<Rightarrow> int \<Rightarrow> error option \<Rightarrow> 'w \<Rightarrow> (error + 't) \<times> 'w \<times> event list" where
  "retryLoop decodeObject c path decodeTarget attempt lastErr w =
     (if attempt \<le> maxRetries then
        (let before =
               (if attempt > 0
                then [Logged (retryingMessage attempt (backoff attempt)), Sleep (backoff attempt)]
                else [])
         in
         case getRedir decodeObject c path decodeTarget w of
           (Inr t, w', evs) \<Rightarrow> (Inr t, w', before @ evs)
         | (Inl err, w', evs) \<Rightarrow>
             (case retryLoop decodeObject c path decodeTarget (attempt + 1) (Some err) w' of
                (r, w'', later) \<Rightarrow>
                  (r, w'', before @ evs @ [Logged (failedMessage attempt err)] @ later)))
      else (Inl (RequestFailedAfter (maxRetries + 1) lastErr), w, []))"
  by pat_completeness auto
termination
  by (relation "measure (\<lambda>(decodeObject, c, path, decodeTarget, attempt, lastErr, w).
        nat (maxRetries + 1 - attempt))") auto

declare retryLoop.simps [simp del]

definition getRedirWithRetry ::
  "(string \<Rightarrow> string + (string \<rightharpoonup> any)) \<Rightarrow> 'w Client \<Rightarrow> string \<Rightarrow> (string \<Rightarrow> string + 't) \<Rightarrow> 'w
     \<Rightarrow> (error + 't) \<times> 'w \<times> event list" where
  "getRedirWithRetry decodeObject c path decodeTarget w =
     retryLoop decodeObject c path decodeTarget 0 None w"

text \<open>
  \<open>GetForecastFor\<close>. The target is a slice of pointers \<open>[]*Municipality\<close>; a
  pointer is \<open>None\<close> when it is \<open>nil\<close> (the decoder stores \<open>nil\<close> for a JSON
  \<open>null\<close>).
\<close>

definition GetForecastFor ::
  "(string \<Rightarrow> string + (string \<rightharpoonup> any)) \<Rightarrow> (string \<Rightarrow> string + Municipality option list)
     \<Rightarrow> 'w Client \<Rightarrow> string \<Rightarrow> 'w \<Rightarrow> (error + Municipality option) \<times> 'w \<times> event list" where
  "GetForecastFor decodeObject decodeForecast c muni w =
     (case getRedirWithRetry decodeObject c
             (''api/prediccion/especifica/municipio/diaria/'' @ muni) decodeForecast w of
        (Inl err, w', evs) \<Rightarrow> (Inl (ErrorRequestingData err), w', evs)
      | (Inr m, w', evs) \<Rightarrow>
          (if length m = 0 then (Inl (NoDataFound muni), w', evs)
           else (Inr (m ! 0), w', evs)))"

section \<open>The one-line summary of the command-line tool (package main)\<close>


















section \<open>Loaded directories, matching names and white space\<close>

text \<open>
  \<open>loadedFrom raw g\<close>: the directory \<open>g\<close> is what a successful load of the decoded
  dataset \<open>raw\<close> leaves, the state in which every lookup runs once the first call of
  \<open>initializeMunicipalities\<close> has succeeded.
\<close>

definition loadedFrom :: "MunicipalityInfo list \<Rightarrow> directory \<Rightarrow> bool" where
  "loadedFrom raw g =
     (initialized g \<and> municipalities g = map (\<lambda>m. m\<lparr>ID := TrimLeft (ID m) ''id''\<rparr>) raw)"

text \<open>
  A name matches a query case-insensitively when the lower-cased name contains the
  lower-cased query.
\<close>

definition nameContains :: "(string \<Rightarrow> string) \<Rightarrow> string \<Rightarrow> MunicipalityInfo \<Rightarrow> bool" where
  "nameContains lower s muni = Contains (lower (Name muni)) (lower s)"

definition nameEquals :: "(string \<Rightarrow> string) \<Rightarrow> string \<Rightarrow> MunicipalityInfo \<Rightarrow> bool" where
  "nameEquals lower s muni = (lower (Name muni) = lower s)"

text \<open>A string of white space: trimming it from the left leaves nothing.\<close>

definition whiteSpace :: "string \<Rightarrow> bool" where
  "whiteSpace ws = (TrimLeftSpace ws = [])"

text \<open>
  The raw identifiers of the dataset are the prefix \<open>"id"\<close> followed by a numeric
  code. \<open>prefixedIdentifier\<close> asks less of the code: that it is empty or begins
  with neither of the letters \<open>i\<close> and \<open>d\<close>, which holds of every code made
  of digits.
\<close>

definition isDigit :: "char \<Rightarrow> bool" where
  "isDigit c = (c \<in> set ''0123456789'')"

definition prefixedIdentifier :: "string \<Rightarrow> bool" where
  "prefixedIdentifier raw =
     (HasPrefix raw ''id'' \<and> (drop 2 raw = [] \<or> hd (drop 2 raw) \<notin> set ''id''))"


section \<open>Example data\<close>

text \<open>
  A dataset of three records (only the identifier and the name matter), the embedded
  file system that holds it, one whose file is missing and one whose file is cut short.
\<close>

definition exampleRecord :: "string \<Rightarrow> string \<Rightarrow> MunicipalityInfo" where
  "exampleRecord ident name =
     \<lparr>Latitude = '''', IDOld = '''', URL = '''', LatitudeDec = '''', Altitude = '''',
      Capital = name, NumHab = '''', ZonaComarcal = '''', Destacada = ''0'', Name = name,
      LongitudeDec = '''', ID = ident, Longitude = ''''\<rparr>"

definition exampleDataset :: "MunicipalityInfo list" where
  "exampleDataset =
     [exampleRecord ''id08019'' ''Barcelona'',
      exampleRecord ''id28079'' ''Madrid'',
      exampleRecord ''id08015'' ''Badalona'']"

definition exampleJSON :: string where
  "exampleJSON =
     ''[{\"id\":\"id08019\",\"nombre\":\"Barcelona\"},{\"id\":\"id28079\",\"nombre\":\"Madrid\"},{\"id\":\"id08015\",\"nombre\":\"Badalona\"}]''"

definition exampleFS :: embedded where
  "exampleFS =
     \<lparr>ReadFile = (\<lambda>name. if name = ''data/municipalities.json'' then Inr exampleJSON
                       else Inl ''file does not exist''),
      Unmarshal = (\<lambda>data. if data = exampleJSON then Inr exampleDataset
                        else Inl ''unexpected end of JSON input'')\<rparr>"



definition exampleLoaded :: directory where
  "exampleLoaded =
     \<lparr>municipalities =
        [exampleRecord ''08019'' ''Barcelona'',
         exampleRecord ''28079'' ''Madrid'',
         exampleRecord ''08015'' ''Badalona''],
      initialized = True, reads = 1, parses = 1\<rparr>"

text \<open>
  A dataset with one record whose code, after the prefix \<open>"id"\<close>, begins with the
  letter \<open>d\<close>.
\<close>

definition letterFS :: embedded where
  "letterFS =
     \<lparr>ReadFile = (\<lambda>name. Inr ''[{\"id\":\"idd001\",\"nombre\":\"Demo\"}]''),
      Unmarshal = (\<lambda>data. Inr [exampleRecord ''idd001'' ''Demo''])\<rparr>"

section \<open>Events of a call and periods of a day\<close>

text \<open>
  The sleeps, in milliseconds, and the URLs requested, in a list of events.
\<close>

fun sleepsOf :: "event list \<Rightarrow> int list" where
  "sleepsOf [] = []"
| "sleepsOf (Sleep ms # evs) = ms # sleepsOf evs"
| "sleepsOf (HttpGet url # evs) = sleepsOf evs"
| "sleepsOf (Logged line # evs) = sleepsOf evs"

fun requestsOf :: "event list \<Rightarrow> string list" where
  "requestsOf [] = []"
| "requestsOf (HttpGet url # evs) = url # requestsOf evs"
| "requestsOf (Sleep ms # evs) = requestsOf evs"
| "requestsOf (Logged line # evs) = requestsOf evs"







section \<open>Example responses\<close>

text \<open>
  A network in which every request times out; its state counts the requests made.
\<close>

definition failingClient :: "nat Client" where
  "failingClient =
     \<lparr>AemetApiKey = ''KEY'',
      httpClientGet = (\<lambda>url n. (Inl (''timeout '' @ showNat n), Suc n))\<rparr>"

text \<open>
  A network without state that answers two endpoints: \<open>api/x\<close> with a pointer to
  the payload \<open>{"a":1}\<close>, and \<open>api/gone\<close> with the JSON object that the
  service sends for a failure, which has no key \<open>"datos"\<close>. Any other URL is
  refused, as the Go HTTP client refuses a URL that it cannot parse. The decoders cover
  the bodies of the example.
\<close>

definition exampleClient :: "unit Client" where
  "exampleClient =
     \<lparr>AemetApiKey = ''KEY'',
      httpClientGet = (\<lambda>url w.
        (if url = ''https://opendata.aemet.es/opendata/api/x?api_key=KEY''
         then Inr ''{\"datos\": \"https://x/y\"}''
         else if url = ''https://x/y?api_key=KEY'' then Inr ''{\"a\":1}''
         else if url = ''https://opendata.aemet.es/opendata/api/gone?api_key=KEY''
         then Inr ''{\"estado\": 404}''
         else Inl ''invalid URL escape'', w))\<rparr>"

definition exampleDecodeObject :: "string \<Rightarrow> string + (string \<rightharpoonup> any)" where
  "exampleDecodeObject body =
     (if body = ''{\"datos\": \"https://x/y\"}'' then Inr [''datos'' \<mapsto> AnyString ''https://x/y'']
      else if body = ''{\"estado\": 404}'' then Inr [''estado'' \<mapsto> AnyOther ''%!s(float64=404)'']
      else Inl ''invalid character'')"

definition exampleDecodeTarget :: "string \<Rightarrow> string + (string \<times> int) list" where
  "exampleDecodeTarget body =
     (if body = ''{\"a\":1}'' then Inr [(''a'', 1)] else Inl ''invalid character'')"

text \<open>
  A forecast for one day with both half-day periods: 30 percent of rain and wind of 20
  km/h from the north in the morning, 80 percent and 10 km/h in the afternoon. The
  forecast endpoint answers with it for the municipality 28079 and with an empty array
  for 00000.
\<close>

definition exampleDay :: Dia where
  "exampleDay =
     \<lparr>ProbPrecipitacion =
        [\<lparr>ProbPrecipitacion.Value = 30, ProbPrecipitacion.Periodo = ''00-12''\<rparr>,
         \<lparr>ProbPrecipitacion.Value = 80, ProbPrecipitacion.Periodo = ''12-24''\<rparr>],
      CotaNieveProv = [],
      EstadoCielo =
        [\<lparr>EstadoCielo.Value = ''12'', EstadoCielo.Periodo = ''00-12'', Descripcion = ''Poco nuboso''\<rparr>,
         \<lparr>EstadoCielo.Value = ''25'', EstadoCielo.Periodo = ''12-24'',
          Descripcion = ''Cubierto con lluvia''\<rparr>],
      Viento =
        [\<lparr>Direccion = ''N'', Velocidad = 20, Viento.Periodo = ''00-12''\<rparr>,
         \<lparr>Direccion = ''SO'', Velocidad = 10, Viento.Periodo = ''12-24''\<rparr>],
      RachaMax = [],
      Temperatura = \<lparr>Maxima = 21, Minima = 12, Dato = []\<rparr>,
      SensTermica = \<lparr>Maxima = 21, Minima = 12, Dato = []\<rparr>,
      HumedadRelativa = \<lparr>Maxima = 80, Minima = 40, Dato = []\<rparr>,
      UvMax = 5,
      Fecha = ''2025-05-20T00:00:00''\<rparr>"

definition exampleForecast :: Municipality where
  "exampleForecast =
     \<lparr>Elaborado = ''2025-05-20T08:00:00'', Nombre = ''Madrid'', Provincia = ''Madrid'',
      Prediccion = \<lparr>Dia = [exampleDay]\<rparr>, Municipality.ID = 28079, Version = 1\<rparr>"

definition forecastClient :: "unit Client" where
  "forecastClient =
     \<lparr>AemetApiKey = ''KEY'',
      httpClientGet = (\<lambda>url w.
        (if url = ''https://opendata.aemet.es/opendata/api/prediccion/especifica/municipio/diaria/28079?api_key=KEY''
         then Inr ''{\"datos\": \"https://x/28079\"}''
         else if url = ''https://x/28079?api_key=KEY'' then Inr ''[{\"nombre\": \"Madrid\"}]''
         else if url = ''https://opendata.aemet.es/opendata/api/prediccion/especifica/municipio/diaria/00000?api_key=KEY''
         then Inr ''{\"datos\": \"https://x/00000\"}''
         else if url = ''https://x/00000?api_key=KEY'' then Inr ''[]''
         else Inl ''invalid URL escape'', w))\<rparr>"

definition forecastDecodeObject :: "string \<Rightarrow> string + (string \<rightharpoonup> any)" where
  "forecastDecodeObject body =
     (if body = ''{\"datos\": \"https://x/28079\"}'' then Inr [''datos'' \<mapsto> AnyString ''https://x/28079'']
      else if body = ''{\"datos\": \"https://x/00000\"}'' then Inr [''datos'' \<mapsto> AnyString ''https://x/00000'']
      else Inl ''invalid character'')"

definition exampleDecodeForecast :: "string \<Rightarrow> string + Municipality option list" where
  "exampleDecodeForecast body =
     (if body = ''[]'' then Inr []
      else if body = ''[{\"nombre\": \"Madrid\"}]'' then Inr [Some exampleForecast]
      else Inl ''invalid character'')"

section \<open>Properties of the string functions\<close>

text \<open>
  Every encoding in \<open>spaceRunes\<close> starts with a byte that is not a UTF-8
  continuation byte and goes on with continuation bytes only, so no encoding can start
  in the middle of another one.
\<close>

lemma leadingSpace_all: "list_all (\<lambda>p. \<forall>s. leadingSpace (p @ s) = Some p) spaceRunes"
  unfolding leadingSpace_def by (simp add: spaceRunes_def)

lemma leadingSpace_append: "p \<in> set spaceRunes \<Longrightarrow> leadingSpace (p @ s) = Some p"
  using leadingSpace_all by (simp add: list_all_iff)

lemma trailingSpace_all: "list_all (\<lambda>p. \<forall>s. trailingSpace (s @ p) = Some p) spaceRunes"
  unfolding trailingSpace_def by (simp add: spaceRunes_def suffix_to_prefix)

lemma trailingSpace_append: "p \<in> set spaceRunes \<Longrightarrow> trailingSpace (s @ p) = Some p"
  using trailingSpace_all by (simp add: list_all_iff)

lemma spaceRunes_shape_all:
  "list_all (\<lambda>p. p \<noteq> [] \<and> \<not> isCont (hd p) \<and> list_all isCont (tl p)) spaceRunes"
  by (simp add: spaceRunes_def isCont_def)

lemma spaceRunes_shape:
  "p \<in> set spaceRunes \<Longrightarrow> p \<noteq> [] \<and> \<not> isCont (hd p) \<and> list_all isCont (tl p)"
  using spaceRunes_shape_all by (simp add: list_all_iff)

lemma leadingSpace_Some:
  "leadingSpace s = Some p \<Longrightarrow> p \<in> set spaceRunes \<and> prefix p s"
  by (auto simp: leadingSpace_def find_Some_iff)

lemma leadingSpace_None:
  "leadingSpace s = None \<Longrightarrow> p \<in> set spaceRunes \<Longrightarrow> \<not> prefix p s"
  by (auto simp: leadingSpace_def find_None_iff)

lemma TrimLeftSpace_rune: "p \<in> set spaceRunes \<Longrightarrow> TrimLeftSpace (p @ s) = TrimLeftSpace s"
  by (subst TrimLeftSpace.simps) (simp add: leadingSpace_append)

lemma TrimRightSpace_rune: "p \<in> set spaceRunes \<Longrightarrow> TrimRightSpace (s @ p) = TrimRightSpace s"
  by (subst TrimRightSpace.simps) (simp add: trailingSpace_append)

lemma TrimLeftSpace_runes:
  "set ps \<subseteq> set spaceRunes \<Longrightarrow> TrimLeftSpace (concat ps @ s) = TrimLeftSpace s"
  by (induction ps) (simp_all add: TrimLeftSpace_rune)

lemma TrimRightSpace_runes:
  "set ps \<subseteq> set spaceRunes \<Longrightarrow> TrimRightSpace (s @ concat ps) = TrimRightSpace s"
proof (induction ps rule: rev_induct)
  case Nil
  then show ?case by simp
next
  case (snoc p ps)
  then have "TrimRightSpace ((s @ concat ps) @ p) = TrimRightSpace (s @ concat ps)"
    by (intro TrimRightSpace_rune) simp
  with snoc show ?case by simp
qed

lemma TrimLeftSpace_decompose:
  "\<exists>ps. set ps \<subseteq> set spaceRunes \<and> s = concat ps @ TrimLeftSpace s
        \<and> leadingSpace (TrimLeftSpace s) = None"
proof (induction s rule: TrimLeftSpace.induct)
  case (1 s)
  show ?case
  proof (cases "leadingSpace s")
    case None
    then have "TrimLeftSpace s = s"
      by (subst TrimLeftSpace.simps) simp
    with None have "set [] \<subseteq> set spaceRunes \<and> s = concat [] @ TrimLeftSpace s
        \<and> leadingSpace (TrimLeftSpace s) = None"
      by simp
    then show ?thesis by blast
  next
    case (Some p)
    then have p: "p \<in> set spaceRunes" "prefix p s"
      by (simp_all add: leadingSpace_Some)
    then have s: "s = p @ drop (length p) s"
      by (auto simp: prefix_def)
    from Some have t: "TrimLeftSpace s = TrimLeftSpace (drop (length p) s)"
      by (subst TrimLeftSpace.simps) simp
    from "1.IH" [OF Some] obtain ps where ps: "set ps \<subseteq> set spaceRunes"
      "drop (length p) s = concat ps @ TrimLeftSpace (drop (length p) s)"
      "leadingSpace (TrimLeftSpace (drop (length p) s)) = None"
      by blast
    have "set (p # ps) \<subseteq> set spaceRunes" using p ps by simp
    moreover have "s = concat (p # ps) @ TrimLeftSpace s"
      using s ps(2) t by simp
    moreover have "leadingSpace (TrimLeftSpace s) = None"
      using ps(3) t by simp
    ultimately show ?thesis by blast
  qed
qed

lemma leadingSpace_None_append:
  assumes "leadingSpace t = None" and "t \<noteq> []" and "x = [] \<or> \<not> isCont (hd x)"
  shows "leadingSpace (t @ x) = None"
proof (cases "leadingSpace (t @ x)")
  case None
  then show ?thesis .
next
  case (Some p)
  then have p: "p \<in> set spaceRunes" "prefix p (t @ x)"
    by (simp_all add: leadingSpace_Some)
  from assms(1) p(1) have np: "\<not> prefix p t"
    by (rule leadingSpace_None)
  with p(2) obtain us where us: "p = t @ us" "prefix us x"
    by (auto simp: prefix_append)
  with np have "us \<noteq> []" by auto
  with us(2) have "x \<noteq> []" "hd us = hd x"
    by (auto simp: prefix_def)
  moreover from assms(2) us(1) \<open>us \<noteq> []\<close> have "hd us \<in> set (tl p)"
    by (cases t) auto
  moreover from p(1) have "list_all isCont (tl p)"
    by (simp add: spaceRunes_shape)
  ultimately have "isCont (hd x)" "x \<noteq> []"
    by (auto simp: list_all_iff)
  with assms(3) show ?thesis by simp
qed

lemma concat_runes_head:
  "set ps \<subseteq> set spaceRunes \<Longrightarrow> concat ps = [] \<or> \<not> isCont (hd (concat ps))"
proof (induction ps)
  case Nil
  then show ?case by simp
next
  case (Cons p ps)
  then have "p \<noteq> []" "\<not> isCont (hd p)"
    by (simp_all add: spaceRunes_shape)
  then show ?case by simp
qed

lemma TrimLeftSpace_Nil: "TrimLeftSpace [] = []"
  by (subst TrimLeftSpace.simps) (simp add: leadingSpace_def spaceRunes_def)

lemma TrimRightSpace_Nil: "TrimRightSpace [] = []"
  by (subst TrimRightSpace.simps) (simp add: trailingSpace_def spaceRunes_def)

lemma whiteSpace_runes:
  assumes "whiteSpace ws"
  shows "\<exists>ps. set ps \<subseteq> set spaceRunes \<and> ws = concat ps"
  using TrimLeftSpace_decompose [of ws] assms by (auto simp: whiteSpace_def)

text \<open>
  White space around a string does not change what \<open>TrimSpace\<close> returns.
\<close>

lemma TrimSpace_surrounded:
  assumes "whiteSpace ws1" and "whiteSpace ws2"
  shows "TrimSpace (ws1 @ s @ ws2) = TrimSpace s"
proof -
  from assms obtain ps qs where ps: "set ps \<subseteq> set spaceRunes" "ws1 = concat ps"
    and qs: "set qs \<subseteq> set spaceRunes" "ws2 = concat qs"
    by (metis whiteSpace_runes)
  obtain rs where rs: "set rs \<subseteq> set spaceRunes" "s = concat rs @ TrimLeftSpace s"
    "leadingSpace (TrimLeftSpace s) = None"
    using TrimLeftSpace_decompose [of s] by blast
  define t where "t = TrimLeftSpace s"
  have a: "TrimLeftSpace (ws1 @ s @ ws2) = TrimLeftSpace (s @ ws2)"
    using ps by (simp add: TrimLeftSpace_runes)
  have b: "s @ ws2 = concat rs @ (t @ ws2)"
    using rs(2) by (simp add: t_def)
  have c: "TrimLeftSpace (concat rs @ (t @ ws2)) = TrimLeftSpace (t @ ws2)"
    using rs(1) by (rule TrimLeftSpace_runes)
  have "TrimLeftSpace (s @ ws2) = TrimLeftSpace (concat rs @ (t @ ws2))"
    by (rule arg_cong [OF b])
  with a c have left: "TrimLeftSpace (ws1 @ s @ ws2) = TrimLeftSpace (t @ ws2)"
    by (simp only:)
  show ?thesis
  proof (cases "t = []")
    case True
    have "TrimLeftSpace (concat qs @ []) = TrimLeftSpace []"
      using qs(1) by (rule TrimLeftSpace_runes)
    then have "TrimLeftSpace ws2 = []"
      using qs(2) by (simp add: TrimLeftSpace_Nil)
    with True left show ?thesis
      by (simp add: TrimSpace_def t_def [symmetric])
  next
    case False
    have "leadingSpace (t @ ws2) = None"
      using rs(3) False concat_runes_head [OF qs(1)] qs(2)
      by (intro leadingSpace_None_append) (simp_all add: t_def)
    then have "TrimLeftSpace (t @ ws2) = t @ ws2"
      by (subst TrimLeftSpace.simps) simp
    moreover have "TrimRightSpace (t @ concat qs) = TrimRightSpace t"
      using qs(1) by (rule TrimRightSpace_runes)
    ultimately show ?thesis
      using left qs(2) by (simp add: TrimSpace_def t_def)
  qed
qed

text \<open>
  \<open>TrimLeft\<close> with the cutset \<open>"id"\<close> leaves a string that does not start
  with \<open>"id"\<close>; on \<open>"id"\<close> followed by a code that starts with neither letter
  (a numeric code) it removes exactly the prefix.
\<close>

lemma TrimLeft_id_no_prefix: "\<not> HasPrefix (TrimLeft s ''id'') ''id''"
proof
  assume "HasPrefix (TrimLeft s ''id'') ''id''"
  then obtain r where r: "dropWhile (\<lambda>c. c \<in> set ''id'') s = ''id'' @ r"
    unfolding HasPrefix_def TrimLeft_def by (elim prefixE)
  then have "dropWhile (\<lambda>c. c \<in> set ''id'') s \<noteq> []"
    by simp
  then have "\<not> (hd (dropWhile (\<lambda>c. c \<in> set ''id'') s) \<in> set ''id'')"
    by (rule hd_dropWhile)
  then show False
    unfolding r by simp
qed

lemma TrimLeft_id_of_code:
  assumes "code = [] \<or> hd code \<notin> set ''id''"
  shows "TrimLeft (''id'' @ code) ''id'' = code"
  using assms by (cases code) (auto simp: TrimLeft_def)

lemma Contains_Nil: "Contains s []"
  by (simp add: Contains_def)

text \<open>
  The facts that evaluate the string functions on a literal.
\<close>

lemmas TrimSpace_eval = TrimSpace_def TrimLeftSpace.simps TrimRightSpace.simps leadingSpace_def
  trailingSpace_def spaceRunes_def suffix_to_prefix

lemmas lower_eval = asciiToLower_def asciiToLowerByte_def

section \<open>Properties of the municipality directory\<close>

subsection \<open>The load and the loops\<close>

lemma initialize_when_initialized:
  "initialized g \<Longrightarrow> initializeMunicipalities fs g = (None, g)"
  by (simp add: initializeMunicipalities_def)


lemma initialize_loadedFrom:
  "loadedFrom raw g \<Longrightarrow> initializeMunicipalities fs g = (None, g)"
  by (simp add: loadedFrom_def initialize_when_initialized)

lemma initialize_first_load:
  assumes "\<not> initialized g"
    and "ReadFile fs ''data/municipalities.json'' = Inr data"
    and "Unmarshal fs data = Inr raw"
  shows "\<exists>g'. initializeMunicipalities fs g = (None, g') \<and> loadedFrom raw g'"
  using assms by (simp add: initializeMunicipalities_def loadedFrom_def)

lemma findIDLoop_find:
  "findIDLoop lower n ms =
     map_option (\<lambda>m. if HasPrefix (ID m) ''id'' then drop 2 (ID m) else ID m)
       (find (\<lambda>m. lower (Name m) = n) ms)"
  by (induction ms) auto

lemma find_loaded_no_prefix:
  assumes "loadedFrom raw g" and "find P (municipalities g) = Some m"
  shows "\<not> HasPrefix (ID m) ''id''"
proof -
  from assms(2) have "m \<in> set (municipalities g)"
    by (auto simp: find_Some_iff)
  with assms(1) show ?thesis
    by (auto simp: loadedFrom_def TrimLeft_id_no_prefix)
qed

lemma partialNameLoop_filter:
  "partialNameLoop lower n ms results = results @ filter (\<lambda>m. Contains (lower (Name m)) n) ms"
  by (induction ms arbitrary: results) auto

lemma byIDLoop_find: "byIDLoop searchID ms = find (\<lambda>m. ID m = searchID) ms"
  by (induction ms) auto

lemma example_load: "initializeMunicipalities exampleFS emptyDirectory = (None, exampleLoaded)"
  by (simp add: initializeMunicipalities_def exampleFS_def emptyDirectory_def exampleLoaded_def
      exampleDataset_def exampleRecord_def TrimLeft_def)

lemma example_loadedFrom: "loadedFrom exampleDataset exampleLoaded"
  by (simp add: loadedFrom_def exampleLoaded_def exampleDataset_def exampleRecord_def TrimLeft_def)

subsection \<open>Lookup by identifier\<close>

text \<open>
  Once the dataset is loaded no stored identifier starts with \<open>"id"\<close>, while
  \<open>GetMunicipalityByID\<close> searches for an identifier that does: it finds nothing,
  whatever it is asked for.
\<close>

lemma GetMunicipalityByID_never_finds:
  assumes "loadedFrom raw g"
  shows "GetMunicipalityByID fs ident g = (Inl (MunicipalityIDNotFound ident), g)"
proof -
  define searchID where "searchID = (if \<not> HasPrefix ident ''id'' then ''id'' @ ident else ident)"
  have pre: "HasPrefix searchID ''id''"
    by (simp add: searchID_def HasPrefix_def)
  have "find (\<lambda>m. ID m = searchID) (municipalities g) = None"
  proof (cases "find (\<lambda>m. ID m = searchID) (municipalities g)")
    case None
    then show ?thesis .
  next
    case (Some m)
    with assms have "\<not> HasPrefix (ID m) ''id''"
      by (rule find_loaded_no_prefix)
    moreover from Some have "ID m = searchID"
      by (auto simp: find_Some_iff)
    ultimately show ?thesis using pre by simp
  qed
  then show ?thesis
    using assms
    by (simp add: GetMunicipalityByID_def initialize_loadedFrom byIDLoop_find searchID_def)
qed

text \<open>
  Claim C1 (identifier round trip). For the record whose raw identifier is
  \<open>"id08019"\<close> the load stores the bare code \<open>"08019"\<close>, and
  \<open>GetMunicipalityByID\<close> called with \<open>"08019"\<close> should return that record.
  The code stores the bare code, but the lookup then returns the error
  \<open>municipality ID not found: 08019\<close>, from the loaded directory and from the
  empty one alike.
\<close>

theorem GetMunicipalityByID_bare_code_not_found:
  "initializeMunicipalities exampleFS emptyDirectory = (None, exampleLoaded)
   \<and> municipalities exampleLoaded ! 0 = exampleRecord ''08019'' ''Barcelona''
   \<and> GetMunicipalityByID exampleFS ''08019'' exampleLoaded
       = (Inl (MunicipalityIDNotFound ''08019''), exampleLoaded)
   \<and> GetMunicipalityByID exampleFS ''08019'' emptyDirectory
       = (Inl (MunicipalityIDNotFound ''08019''), exampleLoaded)"
  by (simp add: GetMunicipalityByID_def initializeMunicipalities_def HasPrefix_def
      exampleLoaded_def exampleRecord_def exampleFS_def emptyDirectory_def exampleDataset_def
      TrimLeft_def)

subsection \<open>Exact-name lookup\<close>

text \<open>
  Claim C7 (exact-name lookup). When the load succeeds, or has succeeded before, and
  leaves a directory loaded from a dataset, \<open>FindMunicipalityID\<close> trims
  the white space around the query, compares its lower case with the lower case of each
  name for equality, and returns the stored identifier of the first record that matches,
  in dataset order; it returns an error exactly when no record matches, and the error is
  then \<open>municipality not found\<close>.
\<close>

theorem FindMunicipalityID_first_match:
  assumes "initializeMunicipalities fs g = (None, g')" and "loadedFrom raw g'"
  shows "FindMunicipalityID lower fs name g =
           ((case find (nameEquals lower (TrimSpace name)) (municipalities g') of
               None \<Rightarrow> Inl (MunicipalityNotFound name)
             | Some muni \<Rightarrow> Inr (ID muni)), g')
         \<and> ((\<exists>err. fst (FindMunicipalityID lower fs name g) = Inl err) =
              (\<not> (\<exists>muni \<in> set (municipalities g'). nameEquals lower (TrimSpace name) muni)))
         \<and> ((\<exists>err. fst (FindMunicipalityID lower fs name g) = Inl err) =
              (fst (FindMunicipalityID lower fs name g) = Inl (MunicipalityNotFound name)))"
proof -
  have eq: "(\<lambda>m. lower (Name m) = lower (TrimSpace name)) = nameEquals lower (TrimSpace name)"
    by (simp add: nameEquals_def fun_eq_iff)
  have 1: "FindMunicipalityID lower fs name g =
           ((case find (nameEquals lower (TrimSpace name)) (municipalities g') of
               None \<Rightarrow> Inl (MunicipalityNotFound name)
             | Some muni \<Rightarrow> Inr (ID muni)), g')"
  proof (cases "find (nameEquals lower (TrimSpace name)) (municipalities g')")
    case None
    then show ?thesis
      by (simp add: FindMunicipalityID_def assms(1) findIDLoop_find eq)
  next
    case (Some m)
    with assms(2) have "\<not> HasPrefix (ID m) ''id''"
      by (rule find_loaded_no_prefix)
    with Some show ?thesis
      by (simp add: FindMunicipalityID_def assms(1) findIDLoop_find eq)
  qed
  have 2: "(\<exists>err. fst (FindMunicipalityID lower fs name g) = Inl err) =
              (\<not> (\<exists>muni \<in> set (municipalities g'). nameEquals lower (TrimSpace name) muni))"
  proof (cases "find (nameEquals lower (TrimSpace name)) (municipalities g')")
    case None
    then have "fst (FindMunicipalityID lower fs name g) = Inl (MunicipalityNotFound name)"
      unfolding 1 by simp
    moreover from None have "\<not> (\<exists>muni \<in> set (municipalities g'). nameEquals lower (TrimSpace name) muni)"
      by (simp add: find_None_iff)
    ultimately show ?thesis by simp
  next
    case (Some m)
    then have "m \<in> set (municipalities g')" "nameEquals lower (TrimSpace name) m"
      by (auto simp: find_Some_iff)
    then have "\<exists>muni \<in> set (municipalities g'). nameEquals lower (TrimSpace name) muni"
      by blast
    moreover from Some have "fst (FindMunicipalityID lower fs name g) = Inr (ID m)"
      unfolding 1 by simp
    ultimately show ?thesis by simp
  qed
  have 3: "(\<exists>err. fst (FindMunicipalityID lower fs name g) = Inl err) =
              (fst (FindMunicipalityID lower fs name g) = Inl (MunicipalityNotFound name))"
    unfolding 1 by (simp split: option.splits)
  show ?thesis
    by (intro conjI) (rule 1, rule 2, rule 3)
qed

text \<open>
  The theorem at the example dataset: a query in upper case with spaces around it finds
  Madrid, and a name that is not in the dataset is not found.
\<close>

theorem FindMunicipalityID_first_match_witness:
  "initializeMunicipalities exampleFS emptyDirectory = (None, exampleLoaded)
   \<and> loadedFrom exampleDataset exampleLoaded
   \<and> FindMunicipalityID asciiToLower exampleFS ''  MADRID '' emptyDirectory = (Inr ''28079'', exampleLoaded)
   \<and> FindMunicipalityID asciiToLower exampleFS ''Sevilla'' exampleLoaded
       = (Inl (MunicipalityNotFound ''Sevilla''), exampleLoaded)"
proof -
  have t1: "TrimSpace ''  MADRID '' = ''MADRID''" and t2: "TrimSpace ''Sevilla'' = ''Sevilla''"
    by (simp_all add: TrimSpace_eval)
  have f1: "find (nameEquals asciiToLower ''MADRID'') (municipalities exampleLoaded)
              = Some (exampleRecord ''28079'' ''Madrid'')"
    by (simp add: nameEquals_def exampleLoaded_def exampleRecord_def lower_eval)
  have f2: "find (nameEquals asciiToLower ''Sevilla'') (municipalities exampleLoaded) = None"
    by (simp add: nameEquals_def exampleLoaded_def exampleRecord_def lower_eval)
  have again: "initializeMunicipalities exampleFS exampleLoaded = (None, exampleLoaded)"
    using example_loadedFrom by (rule initialize_loadedFrom)
  show ?thesis
    using FindMunicipalityID_first_match [OF example_load example_loadedFrom,
        of asciiToLower "''  MADRID ''"]
      FindMunicipalityID_first_match [OF again example_loadedFrom, of asciiToLower "''Sevilla''"]
    by (simp add: t1 t2 f1 f2 example_load example_loadedFrom exampleRecord_def)
qed

subsection \<open>Partial-name lookup\<close>

text \<open>
  Claim C5 (partial-name lookup), as amended. When the load succeeds, or has succeeded
  before, \<open>FindMunicipalitiesByPartialName\<close> returns, without an error and in dataset
  order, exactly the records whose lower-cased name contains the lower case of the query
  with the white space around it removed. A query that is empty once trimmed returns
  every record, and so does the empty query (lower-casing the empty string gives the
  empty string). When nothing matches the result is the empty sequence.
\<close>

theorem FindMunicipalitiesByPartialName_trimmed:
  assumes "initializeMunicipalities fs g = (None, g')"
  shows "FindMunicipalitiesByPartialName lower fs s g
           = (Inr (filter (nameContains lower (TrimSpace s)) (municipalities g')), g')
         \<and> (lower [] = [] \<and> TrimSpace s = [] \<longrightarrow>
              FindMunicipalitiesByPartialName lower fs s g = (Inr (municipalities g'), g'))
         \<and> (lower [] = [] \<longrightarrow>
              FindMunicipalitiesByPartialName lower fs [] g = (Inr (municipalities g'), g'))"
proof -
  have eq: "(\<lambda>m. Contains (lower (Name m)) (lower t)) = nameContains lower t" for t
    by (simp add: nameContains_def fun_eq_iff)
  have 1: "FindMunicipalitiesByPartialName lower fs s g
           = (Inr (filter (nameContains lower (TrimSpace s)) (municipalities g')), g')" for s
    by (simp add: FindMunicipalitiesByPartialName_def assms partialNameLoop_filter eq)
  have 2: "filter (nameContains lower t) ms = ms" if "lower [] = []" "t = []" for t ms
    using that by (simp add: nameContains_def Contains_Nil)
  have 3: "TrimSpace [] = []"
    by (simp add: TrimSpace_def TrimLeftSpace_Nil TrimRightSpace_Nil)
  show ?thesis
    using 1 [of s] 1 [of "[]"] 2 3 by simp
qed

text \<open>
  The theorem at the example dataset: \<open>" BA "\<close> finds Barcelona and Badalona,
  \<open>"xyz"\<close> finds nothing, and the empty query returns everything.
\<close>

theorem FindMunicipalitiesByPartialName_trimmed_witness:
  "initializeMunicipalities exampleFS emptyDirectory = (None, exampleLoaded)
   \<and> FindMunicipalitiesByPartialName asciiToLower exampleFS '' BA '' emptyDirectory
       = (Inr [exampleRecord ''08019'' ''Barcelona'', exampleRecord ''08015'' ''Badalona''],
          exampleLoaded)
   \<and> FindMunicipalitiesByPartialName asciiToLower exampleFS ''xyz'' emptyDirectory
       = (Inr [], exampleLoaded)
   \<and> FindMunicipalitiesByPartialName asciiToLower exampleFS [] emptyDirectory
       = (Inr (municipalities exampleLoaded), exampleLoaded)"
proof -
  have t1: "TrimSpace '' BA '' = ''BA''" and t2: "TrimSpace ''xyz'' = ''xyz''"
    by (simp_all add: TrimSpace_eval)
  have f1: "filter (nameContains asciiToLower ''BA'') (municipalities exampleLoaded)
              = [exampleRecord ''08019'' ''Barcelona'', exampleRecord ''08015'' ''Badalona'']"
    by (simp add: nameContains_def exampleLoaded_def exampleRecord_def lower_eval Contains_def
        sublist_Cons_right)
  have f2: "filter (nameContains asciiToLower ''xyz'') (municipalities exampleLoaded) = []"
    by (simp add: nameContains_def exampleLoaded_def exampleRecord_def lower_eval Contains_def
        sublist_Cons_right)
  have l: "asciiToLower [] = []"
    by (simp add: asciiToLower_def)
  show ?thesis
    using FindMunicipalitiesByPartialName_trimmed [OF example_load, of asciiToLower "'' BA ''"]
      FindMunicipalitiesByPartialName_trimmed [OF example_load, of asciiToLower "''xyz''"]
    by (simp add: t1 t2 f1 f2 l example_load)
qed

text \<open>
  Claim C5 as it is stated fails for a query with white space around it: for the query
  \<open>" "\<close> (one space) the function returns all three records of the example
  dataset, and no name among them contains a space.
\<close>

theorem partial_name_of_space_counterexample:
  "FindMunicipalitiesByPartialName asciiToLower exampleFS '' '' exampleLoaded
     = (Inr (municipalities exampleLoaded), exampleLoaded)
   \<and> filter (nameContains asciiToLower '' '') (municipalities exampleLoaded) = []
   \<and> length (municipalities exampleLoaded) = 3"
proof -
  have t: "TrimSpace '' '' = []"
    by (simp add: TrimSpace_eval)
  have l: "asciiToLower [] = []"
    by (simp add: asciiToLower_def)
  have 1: "FindMunicipalitiesByPartialName asciiToLower exampleFS '' '' exampleLoaded
     = (Inr (municipalities exampleLoaded), exampleLoaded)"
    by (simp add: FindMunicipalitiesByPartialName_def initialize_loadedFrom [OF example_loadedFrom]
        partialNameLoop_filter t l Contains_Nil)
  have 2: "filter (nameContains asciiToLower '' '') (municipalities exampleLoaded) = []"
    by (simp add: nameContains_def exampleLoaded_def exampleRecord_def lower_eval Contains_def
        sublist_Cons_right)
  have 3: "length (municipalities exampleLoaded) = 3"
    by (simp add: exampleLoaded_def)
  from 1 2 3 show ?thesis by (intro conjI)
qed

text \<open>
  Claim C10 (white space around a partial name). For every query \<open>s\<close>, every
  directory and all strings of white space \<open>ws1\<close> and \<open>ws2\<close>, the lookup of
  \<open>ws1 @ s @ ws2\<close> returns what the lookup of \<open>s\<close> returns.
\<close>

theorem partial_name_ignores_surrounding_space:
  assumes "whiteSpace ws1" and "whiteSpace ws2"
  shows "FindMunicipalitiesByPartialName lower fs (ws1 @ s @ ws2) g
           = FindMunicipalitiesByPartialName lower fs s g"
  unfolding FindMunicipalitiesByPartialName_def TrimSpace_surrounded [OF assms] ..

text \<open>
  The theorem at the example dataset, with a space and a tab before the query and a
  no-break space and a line feed after it.
\<close>

theorem partial_name_ignores_surrounding_space_witness:
  "whiteSpace [CHR 0x20, CHR 0x09] \<and> whiteSpace [CHR 0xC2, CHR 0xA0, CHR 0x0A]
   \<and> FindMunicipalitiesByPartialName asciiToLower exampleFS
        ([CHR 0x20, CHR 0x09] @ ''bada'' @ [CHR 0xC2, CHR 0xA0, CHR 0x0A]) emptyDirectory
       = FindMunicipalitiesByPartialName asciiToLower exampleFS ''bada'' emptyDirectory
   \<and> FindMunicipalitiesByPartialName asciiToLower exampleFS ''bada'' emptyDirectory
       = (Inr [exampleRecord ''08015'' ''Badalona''], exampleLoaded)"
proof -
  have w1: "whiteSpace [CHR 0x20, CHR 0x09]" and w2: "whiteSpace [CHR 0xC2, CHR 0xA0, CHR 0x0A]"
    by (simp_all add: whiteSpace_def TrimSpace_eval)
  have t: "TrimSpace ''bada'' = ''bada''"
    by (simp add: TrimSpace_eval)
  have r: "FindMunicipalitiesByPartialName asciiToLower exampleFS ''bada'' emptyDirectory
       = (Inr [exampleRecord ''08015'' ''Badalona''], exampleLoaded)"
    by (simp add: FindMunicipalitiesByPartialName_def example_load partialNameLoop_filter t
        exampleLoaded_def exampleRecord_def lower_eval Contains_def sublist_Cons_right)
  show ?thesis
    using partial_name_ignores_surrounding_space [OF w1 w2, of asciiToLower exampleFS "''bada''" emptyDirectory]
      w1 w2 r
    by simp
qed

subsection \<open>The load\<close>

lemma numeric_prefixedIdentifier:
  assumes "list_all isDigit code"
  shows "prefixedIdentifier (''id'' @ code)"
  using assms by (cases code) (auto simp: prefixedIdentifier_def HasPrefix_def isDigit_def)

lemma TrimLeft_prefixedIdentifier:
  assumes "prefixedIdentifier raw"
  shows "TrimLeft raw ''id'' = drop 2 raw \<and> raw = ''id'' @ drop 2 raw"
proof -
  from assms obtain code where raw: "raw = ''id'' @ code"
    unfolding prefixedIdentifier_def HasPrefix_def by (elim conjE prefixE)
  with assms have "code = [] \<or> hd code \<notin> set ''id''"
    by (simp add: prefixedIdentifier_def)
  then have "TrimLeft (''id'' @ code) ''id'' = code"
    by (rule TrimLeft_id_of_code)
  with raw show ?thesis by simp
qed

text \<open>
  Claim C8 (prefix stripping at load). For a dataset in which every raw identifier is
  the prefix \<open>"id"\<close> followed by a code that begins with neither letter of the
  prefix, as every numeric code does, the first load succeeds and stores each record
  with its identifier replaced by the raw identifier without its first two characters
  and with every other field as it was; the raw identifier is \<open>"id"\<close> followed by
  the stored one, so exactly the prefix has gone.
\<close>

theorem load_strips_exactly_the_prefix:
  assumes "\<not> initialized g"
    and "ReadFile fs ''data/municipalities.json'' = Inr data"
    and "Unmarshal fs data = Inr raw"
    and "list_all (\<lambda>m. prefixedIdentifier (ID m)) raw"
  shows "initializeMunicipalities fs g =
           (None, g\<lparr>municipalities := map (\<lambda>m. m\<lparr>ID := drop 2 (ID m)\<rparr>) raw,
                    initialized := True, reads := reads g + 1, parses := parses g + 1\<rparr>)
         \<and> list_all (\<lambda>m. ID m = ''id'' @ drop 2 (ID m)) raw"
proof -
  have each: "TrimLeft (ID m) ''id'' = drop 2 (ID m) \<and> ID m = ''id'' @ drop 2 (ID m)"
    if "m \<in> set raw" for m
    using that assms(4) by (intro TrimLeft_prefixedIdentifier) (simp add: list_all_iff)
  then have "map (\<lambda>m. m\<lparr>ID := TrimLeft (ID m) ''id''\<rparr>) raw = map (\<lambda>m. m\<lparr>ID := drop 2 (ID m)\<rparr>) raw"
    by (intro map_cong) simp_all
  moreover have "list_all (\<lambda>m. ID m = ''id'' @ drop 2 (ID m)) raw"
    using each by (simp add: list_all_iff)
  ultimately show ?thesis
    using assms(1-3) by (simp add: initializeMunicipalities_def)
qed

text \<open>
  The theorem at the example dataset, whose codes are numeric: \<open>"id08019"\<close>,
  \<open>"id28079"\<close> and \<open>"id08015"\<close> are stored as \<open>"08019"\<close>,
  \<open>"28079"\<close> and \<open>"08015"\<close>.
\<close>

theorem load_strips_exactly_the_prefix_witness:
  "\<not> initialized emptyDirectory
   \<and> ReadFile exampleFS ''data/municipalities.json'' = Inr exampleJSON
   \<and> Unmarshal exampleFS exampleJSON = Inr exampleDataset
   \<and> list_all isDigit ''08019''
   \<and> map ID exampleDataset = [''id08019'', ''id28079'', ''id08015'']
   \<and> map ID (municipalities (snd (initializeMunicipalities exampleFS emptyDirectory)))
       = [''08019'', ''28079'', ''08015'']
   \<and> initializeMunicipalities exampleFS emptyDirectory = (None, exampleLoaded)"
proof -
  have a: "\<not> initialized emptyDirectory"
    by (simp add: emptyDirectory_def)
  have b: "ReadFile exampleFS ''data/municipalities.json'' = Inr exampleJSON"
    by (simp add: exampleFS_def)
  have c: "Unmarshal exampleFS exampleJSON = Inr exampleDataset"
    by (simp add: exampleFS_def)
  have dg: "list_all isDigit ''08019''" "list_all isDigit ''28079''" "list_all isDigit ''08015''"
    by (simp_all add: isDigit_def)
  have d: "list_all (\<lambda>m. prefixedIdentifier (ID m)) exampleDataset"
    using numeric_prefixedIdentifier [OF dg(1)] numeric_prefixedIdentifier [OF dg(2)]
      numeric_prefixedIdentifier [OF dg(3)]
    by (simp add: exampleDataset_def exampleRecord_def)
  have e: "map ID exampleDataset = [''id08019'', ''id28079'', ''id08015'']"
    by (simp add: exampleDataset_def exampleRecord_def)
  show ?thesis
    using load_strips_exactly_the_prefix [OF a b c d]
    by (simp add: a b c e isDigit_def emptyDirectory_def exampleLoaded_def exampleDataset_def
        exampleRecord_def)
qed

text \<open>
  The condition on the code is needed: \<open>TrimLeft\<close> removes every leading
  \<open>i\<close> and \<open>d\<close>, so of a raw identifier \<open>"idd001"\<close>, which no
  numeric code gives, it would store \<open>"001"\<close>.
\<close>

lemma load_strips_letters_after_prefix:
  "initializeMunicipalities letterFS emptyDirectory
     = (None, \<lparr>municipalities = [exampleRecord ''001'' ''Demo''], initialized = True,
               reads = 1, parses = 1\<rparr>)
   \<and> drop 2 ''idd001'' = ''d001''"
  by (simp add: initializeMunicipalities_def letterFS_def emptyDirectory_def exampleRecord_def
      TrimLeft_def)






section \<open>Properties of the client\<close>

subsection \<open>The two-step fetch\<close>

lemma sleepsOf_append: "sleepsOf (xs @ ys) = sleepsOf xs @ sleepsOf ys"
  by (induction xs rule: sleepsOf.induct) auto

lemma getRedir_no_sleep:
  "getRedir decodeObject c path decodeTarget w = (r, w', evs) \<Longrightarrow> sleepsOf evs = []"
  by (auto simp: getRedir_def Let_def split: prod.splits sum.splits)

text \<open>
  Claim C2 (two-step fetch), as amended. Let the first request succeed and its body
  decode to a JSON object. When the object has no key \<open>"datos"\<close>, \<open>getRedir\<close>
  does not stop: it formats the missing value as \<open>%!s(<nil>)\<close> and calls
  \<open>Get\<close> a second time with the URL \<open>%!s(<nil>)?api_key=<key>\<close>; when that
  call fails the result is the error \<open>error requesting data\<close> of a request, not the
  error of a decoding. When the value of \<open>"datos"\<close> is the string \<open>url\<close>, the
  second request goes to \<open>url?api_key=<key>\<close>, and when it succeeds and its body
  decodes, \<open>getRedir\<close> returns the decoded value.
\<close>

theorem getRedir_missing_datos_requests_again:
  assumes "httpClientGet c (aemetApi @ ''/'' @ path @ ''?api_key='' @ AemetApiKey c) w = (Inr body1, w1)"
    and "decodeObject body1 = Inr data"
  shows "(data ''datos'' = None
            \<and> httpClientGet c (''%!s(<nil>)?api_key='' @ AemetApiKey c) w1 = (Inl msg, w2) \<longrightarrow>
          getRedir decodeObject c path decodeTarget w =
            (Inl (ErrorRequestingData (LibraryError msg)), w2,
             [HttpGet (aemetApi @ ''/'' @ path @ ''?api_key='' @ AemetApiKey c),
              HttpGet (''%!s(<nil>)?api_key='' @ AemetApiKey c)]))
       \<and> (data ''datos'' = None \<longrightarrow>
          requestsOf (snd (snd (getRedir decodeObject c path decodeTarget w))) =
            [aemetApi @ ''/'' @ path @ ''?api_key='' @ AemetApiKey c,
             ''%!s(<nil>)?api_key='' @ AemetApiKey c])
       \<and> (data ''datos'' = Some (AnyString url)
            \<and> httpClientGet c (url @ ''?api_key='' @ AemetApiKey c) w1 = (Inr body2, w2)
            \<and> decodeTarget body2 = Inr t \<longrightarrow>
          getRedir decodeObject c path decodeTarget w =
            (Inr t, w2,
             [HttpGet (aemetApi @ ''/'' @ path @ ''?api_key='' @ AemetApiKey c),
              HttpGet (url @ ''?api_key='' @ AemetApiKey c)]))"
  using assms
  by (auto simp: getRedir_def Let_def index_def split: prod.splits sum.splits)

text \<open>
  The theorem at the example network: the endpoint \<open>api/gone\<close>, whose answer has
  no \<open>"datos"\<close>, and the endpoint \<open>api/x\<close>, whose answer points to
  \<open>https://x/y\<close>.
\<close>

theorem getRedir_missing_datos_requests_again_witness:
  "getRedir exampleDecodeObject exampleClient ''api/gone'' exampleDecodeTarget () =
     (Inl (ErrorRequestingData (LibraryError ''invalid URL escape'')), (),
      [HttpGet ''https://opendata.aemet.es/opendata/api/gone?api_key=KEY'',
       HttpGet ''%!s(<nil>)?api_key=KEY''])
   \<and> getRedir exampleDecodeObject exampleClient ''api/x'' exampleDecodeTarget () =
     (Inr [(''a'', 1)], (),
      [HttpGet ''https://opendata.aemet.es/opendata/api/x?api_key=KEY'',
       HttpGet ''https://x/y?api_key=KEY''])"
proof -
  have a1: "httpClientGet exampleClient
              (aemetApi @ ''/'' @ ''api/gone'' @ ''?api_key='' @ AemetApiKey exampleClient) ()
            = (Inr ''{\"estado\": 404}'', ())"
    by (simp add: exampleClient_def aemetApi_def)
  have a2: "exampleDecodeObject ''{\"estado\": 404}'' = Inr [''estado'' \<mapsto> AnyOther ''%!s(float64=404)'']"
    by (simp add: exampleDecodeObject_def)
  have a3: "[''estado'' \<mapsto> AnyOther ''%!s(float64=404)''] ''datos'' = None
            \<and> httpClientGet exampleClient (''%!s(<nil>)?api_key='' @ AemetApiKey exampleClient) ()
                = (Inl ''invalid URL escape'', ())"
    by (simp add: exampleClient_def)
  have b1: "httpClientGet exampleClient
              (aemetApi @ ''/'' @ ''api/x'' @ ''?api_key='' @ AemetApiKey exampleClient) ()
            = (Inr ''{\"datos\": \"https://x/y\"}'', ())"
    by (simp add: exampleClient_def aemetApi_def)
  have b2: "exampleDecodeObject ''{\"datos\": \"https://x/y\"}'' = Inr [''datos'' \<mapsto> AnyString ''https://x/y'']"
    by (simp add: exampleDecodeObject_def)
  have b3: "[''datos'' \<mapsto> AnyString ''https://x/y''] ''datos'' = Some (AnyString ''https://x/y'')
            \<and> httpClientGet exampleClient (''https://x/y'' @ ''?api_key='' @ AemetApiKey exampleClient) ()
                = (Inr ''{\"a\":1}'', ())
            \<and> exampleDecodeTarget ''{\"a\":1}'' = Inr [(''a'', 1)]"
    by (simp add: exampleClient_def exampleDecodeTarget_def)
  have k: "AemetApiKey exampleClient = ''KEY''"
    by (simp add: exampleClient_def)
  show ?thesis
    using getRedir_missing_datos_requests_again [where c = exampleClient and path = "''api/gone''"
        and w = "()" and ?body1.0 = "''{\"estado\": 404}''" and ?w1.0 = "()"
        and decodeObject = exampleDecodeObject
        and data = "[''estado'' \<mapsto> AnyOther ''%!s(float64=404)'']"
        and decodeTarget = exampleDecodeTarget
        and msg = "''invalid URL escape''" and ?w2.0 = "()"]
      getRedir_missing_datos_requests_again [where c = exampleClient and path = "''api/x''"
        and w = "()" and ?body1.0 = "''{\"datos\": \"https://x/y\"}''" and ?w1.0 = "()"
        and decodeObject = exampleDecodeObject
        and data = "[''datos'' \<mapsto> AnyString ''https://x/y'']"
        and decodeTarget = exampleDecodeTarget
        and url = "''https://x/y''" and ?w2.0 = "()" and ?body2.0 = "''{\"a\":1}''"
        and t = "[(''a'', 1)]"]
      a1 a2 b1 b2
      a3 b3
    by (simp add: k aemetApi_def)
qed

text \<open>
  Claim C2 as it is stated fails: the body \<open>{"estado": 404}\<close> decodes to an
  object without \<open>"datos"\<close>, and \<open>getRedir\<close> calls \<open>Get\<close> twice and
  returns a request error, not a decode error.
\<close>

theorem getRedir_missing_datos_counterexample:
  "exampleDecodeObject ''{\"estado\": 404}'' = Inr [''estado'' \<mapsto> AnyOther ''%!s(float64=404)'']
   \<and> [''estado'' \<mapsto> AnyOther ''%!s(float64=404)''] ''datos'' = None
   \<and> getRedir exampleDecodeObject exampleClient ''api/gone'' exampleDecodeTarget () =
       (Inl (ErrorRequestingData (LibraryError ''invalid URL escape'')), (),
        [HttpGet ''https://opendata.aemet.es/opendata/api/gone?api_key=KEY'',
         HttpGet ''%!s(<nil>)?api_key=KEY''])"
  by (simp add: getRedir_def exampleClient_def exampleDecodeObject_def aemetApi_def index_def)

subsection \<open>The retry loop\<close>

lemma retryLoop_failed:
  assumes "attempt \<le> maxRetries"
    and "getRedir decodeObject c path decodeTarget w = (Inl err, w', evs)"
    and "retryLoop decodeObject c path decodeTarget (attempt + 1) (Some err) w' = (r, w'', later)"
  shows "retryLoop decodeObject c path decodeTarget attempt lastErr w =
           (r, w'',
            (if attempt > 0
             then [Logged (retryingMessage attempt (backoff attempt)), Sleep (backoff attempt)]
             else [])
            @ evs @ [Logged (failedMessage attempt err)] @ later)"
  using assms by (subst retryLoop.simps) (simp add: Let_def)

lemma retryLoop_succeeded:
  assumes "attempt \<le> maxRetries"
    and "getRedir decodeObject c path decodeTarget w = (Inr t, w', evs)"
  shows "retryLoop decodeObject c path decodeTarget attempt lastErr w =
           (Inr t, w',
            (if attempt > 0
             then [Logged (retryingMessage attempt (backoff attempt)), Sleep (backoff attempt)]
             else [])
            @ evs)"
  using assms by (subst retryLoop.simps) (simp add: Let_def)

lemma retryLoop_exhausted:
  assumes "\<not> attempt \<le> maxRetries"
  shows "retryLoop decodeObject c path decodeTarget attempt lastErr w =
           (Inl (RequestFailedAfter (maxRetries + 1) lastErr), w, [])"
  using assms by (subst retryLoop.simps) simp

lemma backoff_values: "backoff 1 = 100" "backoff 2 = 200" "backoff 3 = 400"
  by (simp_all add: backoff_def baseBackoffMs_def)

lemma showInt_4: "showInt 4 = ''4''"
  by (simp add: showInt_def showNat.simps)

lemmas show_eval = showInt_def showNat.simps

text \<open>
  Claim C3 (retry policy). With \<open>maxRetries = 3\<close> and
  \<open>baseBackoffMs = 100\<close>, when the four calls of \<open>getRedir\<close> that follow one
  another fail, with whatever errors, \<open>getRedirWithRetry\<close> makes exactly these four
  calls, logs each failure, sleeps 100, 200 and 400 milliseconds before the second, third
  and fourth call, and returns an error that wraps the error of the fourth call and whose
  text begins \<open>request failed after 4 attempts\<close>.
\<close>

theorem retry_gives_up_after_four_attempts:
  assumes "getRedir decodeObject c path decodeTarget w0 = (Inl e1, w1, v1)"
    and "getRedir decodeObject c path decodeTarget w1 = (Inl e2, w2, v2)"
    and "getRedir decodeObject c path decodeTarget w2 = (Inl e3, w3, v3)"
    and "getRedir decodeObject c path decodeTarget w3 = (Inl e4, w4, v4)"
  shows "getRedirWithRetry decodeObject c path decodeTarget w0 =
           (Inl (RequestFailedAfter 4 (Some e4)), w4,
            v1 @ [Logged (failedMessage 0 e1),
                  Logged (retryingMessage 1 100), Sleep 100] @
            v2 @ [Logged (failedMessage 1 e2),
                  Logged (retryingMessage 2 200), Sleep 200] @
            v3 @ [Logged (failedMessage 2 e3),
                  Logged (retryingMessage 3 400), Sleep 400] @
            v4 @ [Logged (failedMessage 3 e4)])
         \<and> sleepsOf (snd (snd (getRedirWithRetry decodeObject c path decodeTarget w0)))
             = [100, 200, 400]
         \<and> errorText (RequestFailedAfter 4 (Some e4))
             = ''request failed after 4 attempts: '' @ errorText e4"
proof -
  have l4: "retryLoop decodeObject c path decodeTarget 4 (Some e4) w4 =
              (Inl (RequestFailedAfter 4 (Some e4)), w4, [])"
    using retryLoop_exhausted [of 4 decodeObject c path decodeTarget "Some e4" w4]
    by (simp add: maxRetries_def)
  have l3: "retryLoop decodeObject c path decodeTarget 3 (Some e3) w3 =
              (Inl (RequestFailedAfter 4 (Some e4)), w4,
               [Logged (retryingMessage 3 400), Sleep 400] @ v4 @ [Logged (failedMessage 3 e4)])"
    using retryLoop_failed [of 3 decodeObject c path decodeTarget w3 e4 w4 v4 _ w4 "[]" "Some e3"]
      assms(4) l4
    by (simp add: maxRetries_def backoff_values)
  have l2: "retryLoop decodeObject c path decodeTarget 2 (Some e2) w2 =
              (Inl (RequestFailedAfter 4 (Some e4)), w4,
               [Logged (retryingMessage 2 200), Sleep 200] @ v3 @ [Logged (failedMessage 2 e3)] @
               [Logged (retryingMessage 3 400), Sleep 400] @ v4 @ [Logged (failedMessage 3 e4)])"
    using retryLoop_failed [of 2 decodeObject c path decodeTarget w2 e3 w3 v3 _ w4 _ "Some e2"]
      assms(3) l3
    by (simp add: maxRetries_def backoff_values)
  have l1: "retryLoop decodeObject c path decodeTarget 1 (Some e1) w1 =
              (Inl (RequestFailedAfter 4 (Some e4)), w4,
               [Logged (retryingMessage 1 100), Sleep 100] @ v2 @ [Logged (failedMessage 1 e2)] @
               [Logged (retryingMessage 2 200), Sleep 200] @ v3 @ [Logged (failedMessage 2 e3)] @
               [Logged (retryingMessage 3 400), Sleep 400] @ v4 @ [Logged (failedMessage 3 e4)])"
    using retryLoop_failed [of 1 decodeObject c path decodeTarget w1 e2 w2 v2 _ w4 _ "Some e1"]
      assms(2) l2
    by (simp add: maxRetries_def backoff_values)
  have l0: "getRedirWithRetry decodeObject c path decodeTarget w0 =
           (Inl (RequestFailedAfter 4 (Some e4)), w4,
            v1 @ [Logged (failedMessage 0 e1),
                  Logged (retryingMessage 1 100), Sleep 100] @
            v2 @ [Logged (failedMessage 1 e2),
                  Logged (retryingMessage 2 200), Sleep 200] @
            v3 @ [Logged (failedMessage 2 e3),
                  Logged (retryingMessage 3 400), Sleep 400] @
            v4 @ [Logged (failedMessage 3 e4)])"
    unfolding getRedirWithRetry_def
    using retryLoop_failed [of 0 decodeObject c path decodeTarget w0 e1 w1 v1 _ w4 _ None]
      assms(1) l1
    by (simp add: maxRetries_def)
  have s: "sleepsOf v1 = []" "sleepsOf v2 = []" "sleepsOf v3 = []" "sleepsOf v4 = []"
    using assms by (simp_all add: getRedir_no_sleep)
  have sl: "sleepsOf (snd (snd (getRedirWithRetry decodeObject c path decodeTarget w0)))
             = [100, 200, 400]"
    unfolding l0 by (simp add: sleepsOf_append s)
  have tx: "errorText (RequestFailedAfter 4 (Some e4))
             = ''request failed after 4 attempts: '' @ errorText e4"
    by (simp add: showInt_4)
  show ?thesis
    by (intro conjI) (rule l0, rule sl, rule tx)
qed

text \<open>
  The theorem at the network in which every request times out.
\<close>

theorem retry_gives_up_after_four_attempts_witness:
  "getRedirWithRetry exampleDecodeObject failingClient ''api/x'' exampleDecodeTarget 0 =
     (Inl (RequestFailedAfter 4 (Some (ErrorRequestingData (LibraryError ''timeout 3'')))), 4,
      [HttpGet ''https://opendata.aemet.es/opendata/api/x?api_key=KEY'',
       Logged ''Request failed (attempt 1/4): error requesting data: timeout 0'',
       Logged ''Retrying request (attempt 2/4) after 100ms backoff'', Sleep 100,
       HttpGet ''https://opendata.aemet.es/opendata/api/x?api_key=KEY'',
       Logged ''Request failed (attempt 2/4): error requesting data: timeout 1'',
       Logged ''Retrying request (attempt 3/4) after 200ms backoff'', Sleep 200,
       HttpGet ''https://opendata.aemet.es/opendata/api/x?api_key=KEY'',
       Logged ''Request failed (attempt 3/4): error requesting data: timeout 2'',
       Logged ''Retrying request (attempt 4/4) after 400ms backoff'', Sleep 400,
       HttpGet ''https://opendata.aemet.es/opendata/api/x?api_key=KEY'',
       Logged ''Request failed (attempt 4/4): error requesting data: timeout 3''])
   \<and> errorText (RequestFailedAfter 4 (Some (ErrorRequestingData (LibraryError ''timeout 3''))))
       = ''request failed after 4 attempts: error requesting data: timeout 3''"
proof -
  have g: "getRedir exampleDecodeObject failingClient ''api/x'' exampleDecodeTarget n =
             (Inl (ErrorRequestingData (LibraryError (''timeout '' @ showNat n))), Suc n,
              [HttpGet ''https://opendata.aemet.es/opendata/api/x?api_key=KEY''])" for n
    by (simp add: getRedir_def failingClient_def aemetApi_def)
  have n: "showNat 0 = ''0''" "showNat (Suc 0) = ''1''" "showNat (Suc (Suc 0)) = ''2''"
    "showNat (Suc (Suc (Suc 0))) = ''3''"
    by (simp_all add: showNat.simps)
  show ?thesis
    using retry_gives_up_after_four_attempts [OF g [of 0] g [of "Suc 0"] g [of "Suc (Suc 0)"]
        g [of "Suc (Suc (Suc 0))"]]
    by (simp add: n failedMessage_def retryingMessage_def maxRetries_def show_eval)
qed

subsection \<open>The forecast of a municipality\<close>

text \<open>
  Claim C6 (empty forecast). When the fetch succeeds and the decoded response is the
  empty sequence, \<open>GetForecastFor\<close> returns the error
  \<open>no data found for municipality\<close> and no record; when the sequence is not empty
  it returns its first element.
\<close>

theorem GetForecastFor_empty_is_no_data:
  assumes "getRedirWithRetry decodeObject c
             (''api/prediccion/especifica/municipio/diaria/'' @ muni) decodeForecast w
           = (Inr m, w', evs)"
  shows "(m = [] \<longrightarrow>
            GetForecastFor decodeObject decodeForecast c muni w = (Inl (NoDataFound muni), w', evs))
       \<and> (\<forall>first others. m = first # others \<longrightarrow>
            GetForecastFor decodeObject decodeForecast c muni w = (Inr first, w', evs))"
  using assms by (auto simp: GetForecastFor_def)

text \<open>
  The theorem at the example forecast endpoint: the empty array for 00000, and the
  forecast of Madrid for 28079.
\<close>

theorem GetForecastFor_empty_is_no_data_witness:
  "GetForecastFor forecastDecodeObject exampleDecodeForecast forecastClient ''00000'' ()
     = (Inl (NoDataFound ''00000''), (),
        [HttpGet ''https://opendata.aemet.es/opendata/api/prediccion/especifica/municipio/diaria/00000?api_key=KEY'',
         HttpGet ''https://x/00000?api_key=KEY''])
   \<and> GetForecastFor forecastDecodeObject exampleDecodeForecast forecastClient ''28079'' ()
     = (Inr (Some exampleForecast), (),
        [HttpGet ''https://opendata.aemet.es/opendata/api/prediccion/especifica/municipio/diaria/28079?api_key=KEY'',
         HttpGet ''https://x/28079?api_key=KEY''])"
proof -
  have g0: "getRedir forecastDecodeObject forecastClient
              (''api/prediccion/especifica/municipio/diaria/'' @ ''00000'') exampleDecodeForecast ()
            = (Inr [], (),
               [HttpGet ''https://opendata.aemet.es/opendata/api/prediccion/especifica/municipio/diaria/00000?api_key=KEY'',
                HttpGet ''https://x/00000?api_key=KEY''])"
    by (simp add: getRedir_def forecastClient_def forecastDecodeObject_def
        exampleDecodeForecast_def aemetApi_def index_def)
  have g1: "getRedir forecastDecodeObject forecastClient
              (''api/prediccion/especifica/municipio/diaria/'' @ ''28079'') exampleDecodeForecast ()
            = (Inr [Some exampleForecast], (),
               [HttpGet ''https://opendata.aemet.es/opendata/api/prediccion/especifica/municipio/diaria/28079?api_key=KEY'',
                HttpGet ''https://x/28079?api_key=KEY''])"
    by (simp add: getRedir_def forecastClient_def forecastDecodeObject_def
        exampleDecodeForecast_def aemetApi_def index_def)
  have r0: "getRedirWithRetry forecastDecodeObject forecastClient
              (''api/prediccion/especifica/municipio/diaria/'' @ ''00000'') exampleDecodeForecast ()
            = (Inr [], (),
               [HttpGet ''https://opendata.aemet.es/opendata/api/prediccion/especifica/municipio/diaria/00000?api_key=KEY'',
                HttpGet ''https://x/00000?api_key=KEY''])"
    unfolding getRedirWithRetry_def
    using retryLoop_succeeded [OF _ g0, of 0 None] by (simp add: maxRetries_def)
  have r1: "getRedirWithRetry forecastDecodeObject forecastClient
              (''api/prediccion/especifica/municipio/diaria/'' @ ''28079'') exampleDecodeForecast ()
            = (Inr [Some exampleForecast], (),
               [HttpGet ''https://opendata.aemet.es/opendata/api/prediccion/especifica/municipio/diaria/28079?api_key=KEY'',
                HttpGet ''https://x/28079?api_key=KEY''])"
    unfolding getRedirWithRetry_def
    using retryLoop_succeeded [OF _ g1, of 0 None] by (simp add: maxRetries_def)
  show ?thesis
    using GetForecastFor_empty_is_no_data [OF r0] GetForecastFor_empty_is_no_data [OF r1]
    by simp
qed

section \<open>Properties of the one-line summary\<close>



















end
